theory Spec2Isabelle
  imports Complex_Main
begin

section \<open>Training orchestration (CLIP/train.py)\<close>

text \<open>
  Python floats are modelled as the real numbers they approximate: rounding is not
  part of the model, while every branch, comparison and division of the source is.
  Python integers are \<open>int\<close>. An exception of the source is the \<open>Inl\<close> branch of a
  sum type.
\<close>

datatype error =
    ZeroDivisionError
  | AssertionError
  | StopIteration
  | RuntimeError
  | ValueError
  | IndexError

type_synonym matrix = "real list list"
type_synonym tensor3 = "real list list list"

subsection \<open>The hyperparameters: dataclass \<open>TrainConfig\<close>\<close>

record TrainConfig =
  data_path :: string
  eval_ratio :: real
  batch_size :: int
  num_workers :: int
  resume :: bool
  lr :: real
  min_lr :: real
  grad_clip :: real
  seq_len :: int
  log_iters :: int
  eval_iters :: int
  warmup_iters :: int
  lr_decay_iters :: int
  max_iters :: int

text \<open>The defaults of the dataclass, the configuration \<open>__main__\<close> runs with.\<close>

definition TrainConfig_default :: TrainConfig where
  "TrainConfig_default =
     \<lparr> data_path = ''/home/robin/Downloads/CC3M'',
       eval_ratio = 1 / 10,
       batch_size = 128,
       num_workers = 4,
       resume = False,
       lr = 1 / 10000,
       min_lr = 1 / 1000000,
       grad_clip = 100,
       seq_len = 64,
       log_iters = 2000,
       eval_iters = 10000,
       warmup_iters = 2000,
       lr_decay_iters = 128000,
       max_iters = 1000000 \<rparr>"

subsection \<open>The learning-rate schedule: \<open>Trainer.get_lr\<close>\<close>

text \<open>
  The three branches of \<open>get_lr\<close> in the order of the source: linear warmup, the
  floor after the decay horizon, cosine decay in between. Both divisions are true
  divisions of Python and raise on a zero divisor; the \<open>assert\<close> is a branch.
\<close>

definition decay_ratio :: "TrainConfig \<Rightarrow> int \<Rightarrow> real" where
  "decay_ratio config iteration =
     real_of_int (iteration - warmup_iters config) /
     real_of_int (lr_decay_iters config - warmup_iters config)"

definition get_lr :: "TrainConfig \<Rightarrow> int \<Rightarrow> error + real" where
  "get_lr config iteration =
     (if iteration < warmup_iters config then
        (if warmup_iters config = 0 then Inl ZeroDivisionError
         else Inr (lr config * real_of_int iteration / real_of_int (warmup_iters config)))
      else if iteration > lr_decay_iters config then Inr (min_lr config)
      else if lr_decay_iters config - warmup_iters config = 0 then Inl ZeroDivisionError
      else if 0 \<le> decay_ratio config iteration \<and> decay_ratio config iteration \<le> 1 then
        (let coeff = 0.5 * (1.0 + cos (pi * decay_ratio config iteration))
         in Inr (min_lr config + coeff * (lr config - min_lr config)))
      else Inl AssertionError)"

subsection \<open>The batch source: \<open>DataLoader\<close>, \<open>iter\<close>, \<open>next\<close> and the fetch of \<open>Trainer.train_loop\<close>\<close>

text \<open>
  A \<open>DataLoader\<close> with the default \<open>drop_last = False\<close> cuts one pass over the dataset
  into batches of \<open>batch_size\<close> samples, the last one holding what is left. The loader
  refuses to be built with \<open>batch_size \<le> 0\<close>, so \<open>B = 0\<close> yields no batch here.
\<close>

function batches :: "nat \<Rightarrow> 'a list \<Rightarrow> 'a list list" where
  "batches B xs = (if B = 0 \<or> xs = [] then [] else take B xs # batches B (drop B xs))"
  by pat_completeness auto
termination
  by (relation "measure (\<lambda>(B, xs). length xs)") auto

declare batches.simps [simp del]

text \<open>
  The part of the \<open>Trainer\<close> object the fetch reads and writes. A sample is an
  (image, text) pair, kept abstract; a batch is the list of its samples, so that
  \<open>len(images)\<close> is its length. \<open>batch_iter\<close> holds the batches the current iterator
  has not yet returned, \<open>passes\<close> counts the iterators created so far. The training
  loader shuffles: the order of pass \<open>k\<close> is \<open>shuffle k train_ds\<close>, where \<open>shuffle\<close>
  stands for the random sampler. Loading a sample is assumed not to fault.
\<close>

record 'a Trainer =
  config :: TrainConfig
  train_ds :: "'a list"
  batch_iter :: "'a list list"
  passes :: nat

definition iter_train_loader :: "(nat \<Rightarrow> 'a list \<Rightarrow> 'a list) \<Rightarrow> 'a Trainer \<Rightarrow> 'a Trainer" where
  "iter_train_loader shuffle t =
     t\<lparr> batch_iter := batches (nat (batch_size (config t))) (shuffle (passes t) (train_ds t)),
        passes := Suc (passes t) \<rparr>"

definition next_batch :: "'a Trainer \<Rightarrow> (error + 'a list) \<times> 'a Trainer" where
  "next_batch t =
     (case batch_iter t of
        [] \<Rightarrow> (Inl StopIteration, t)
      | b # bs \<Rightarrow> (Inr b, t\<lparr> batch_iter := bs \<rparr>))"

text \<open>\<open>Trainer.__init__\<close>: the first iterator is created at construction.\<close>

definition Trainer_init ::
  "(nat \<Rightarrow> 'a list \<Rightarrow> 'a list) \<Rightarrow> TrainConfig \<Rightarrow> 'a list \<Rightarrow> 'a Trainer" where
  "Trainer_init shuffle cfg ds =
     iter_train_loader shuffle
       \<lparr> config = cfg, train_ds = ds, batch_iter = [], passes = 0 \<rparr>"

text \<open>
  The \<open>try\<close> block of \<open>train_loop\<close>. A short batch makes the loop create a new
  iterator and take its first batch, whatever its size. \<open>StopIteration\<close>, from either
  \<open>next\<close> of the \<open>try\<close> block, is handled the same way; a \<open>StopIteration\<close> raised
  inside the handler propagates.
\<close>

definition fetch_batch ::
  "(nat \<Rightarrow> 'a list \<Rightarrow> 'a list) \<Rightarrow> 'a Trainer \<Rightarrow> (error + 'a list) \<times> 'a Trainer" where
  "fetch_batch shuffle t =
     (case next_batch t of
        (Inr images, t1) \<Rightarrow>
          if int (length images) < batch_size (config t1) then
            (case next_batch (iter_train_loader shuffle t1) of
               (Inr images', t2) \<Rightarrow> (Inr images', t2)
             | (Inl e, t2) \<Rightarrow> next_batch (iter_train_loader shuffle t2))
          else (Inr images, t1)
      | (Inl e, t1) \<Rightarrow> next_batch (iter_train_loader shuffle t1))"

text \<open>
  The batches that \<open>n\<close> successive calls of \<open>train_loop\<close> receive; an exception ends
  the run, so nothing follows an error.
\<close>

fun fetch_many ::
  "(nat \<Rightarrow> 'a list \<Rightarrow> 'a list) \<Rightarrow> nat \<Rightarrow> 'a Trainer \<Rightarrow> (error + 'a list) list" where
  "fetch_many shuffle 0 t = []"
| "fetch_many shuffle (Suc n) t =
     (case fetch_batch shuffle t of
        (Inl e, t') \<Rightarrow> [Inl e]
      | (Inr b, t') \<Rightarrow> Inr b # fetch_many shuffle n t')"

subsection \<open>Evaluation: \<open>Trainer.evaluate\<close>\<close>

text \<open>
  \<open>torch.max(logits_image, dim=-1)\<close> gives, for each row, the index of a largest
  entry (the first one here); it raises on a row without entries.
\<close>

fun argmax :: "real list \<Rightarrow> nat" where
  "argmax [] = 0"
| "argmax [x] = 0"
| "argmax (x # y # ys) =
     (let j = argmax (y # ys) in if (y # ys) ! j \<le> x then 0 else Suc j)"

definition batch_accuracy :: "matrix \<Rightarrow> error + real" where
  "batch_accuracy logits_image =
     (if list_ex (\<lambda>row. row = []) logits_image then Inl IndexError
      else
        (let predict = map argmax logits_image;
             correct_labels = [0..<length logits_image];
             correct = map2 (\<lambda>p l. p = l) predict correct_labels
         in if length correct = 0 then Inl ZeroDivisionError
            else Inr (real (length (filter id correct)) / real (length correct))))"

text \<open>
  The loop of \<open>evaluate\<close> over the batches it is given; \<open>model\<close> maps a batch to
  \<open>(logits_image, loss)\<close>, the two outputs the loop reads.
\<close>

fun eval_batches ::
  "('b \<Rightarrow> matrix \<times> real) \<Rightarrow> 'b list \<Rightarrow> real \<times> real \<Rightarrow> error + real \<times> real" where
  "eval_batches model [] totals = Inr totals"
| "eval_batches model (b # bs) (total_loss, sum_accuracy) =
     (case model b of
        (logits_image, loss) \<Rightarrow>
          (case batch_accuracy logits_image of
             Inl e \<Rightarrow> Inl e
           | Inr a \<Rightarrow> eval_batches model bs (total_loss + loss, sum_accuracy + a)))"

text \<open>
  \<open>evaluate\<close>: \<open>eval_loader\<close> is the list of batches of the evaluation loader, so
  \<open>len(self.eval_loader)\<close> is its length. The loop runs \<open>range(length - 1)\<close> times, over
  all batches but the last; the totals are divided by \<open>length\<close>.
\<close>

definition evaluate :: "('b \<Rightarrow> matrix \<times> real) \<Rightarrow> 'b list \<Rightarrow> error + real \<times> real" where
  "evaluate model eval_loader =
     (let len = int (length eval_loader) in
      case eval_batches model (take (nat (len - 1)) eval_loader) (0, 0) of
        Inl e \<Rightarrow> Inl e
      | Inr (total_loss, sum_accuracy) \<Rightarrow>
          if len = 0 then Inl ZeroDivisionError
          else Inr (total_loss / real_of_int len, sum_accuracy / real_of_int len))"

subsection \<open>The training loop and its checkpoints: \<open>Trainer.train\<close>\<close>

text \<open>
  What \<open>train\<close> keeps across iterations besides the trainer itself: the threshold
  \<open>best_val_accuracy\<close> and, as the effect of \<open>torch.save\<close>, the checkpoints written,
  each with the iteration of its file name \<open>clip_<iteration>.pt\<close> and its
  \<open>eval_accuracy\<close>.
\<close>

record TrainState =
  best_val_accuracy :: real
  saved :: "(int \<times> real) list"

definition TrainState_init :: TrainState where
  "TrainState_init = \<lparr> best_val_accuracy = 1 / 1000000000, saved = [] \<rparr>"

text \<open>Lines 179 to 186: the comparison and the save. Nothing assigns \<open>best_val_accuracy\<close>.\<close>

definition checkpoint_step :: "TrainState \<Rightarrow> int \<Rightarrow> real \<Rightarrow> TrainState" where
  "checkpoint_step st iteration avg_accuracy =
     (if avg_accuracy > best_val_accuracy st
      then st\<lparr> saved := saved st @ [(iteration, avg_accuracy)] \<rparr>
      else st)"

text \<open>
  One iteration of the loop of \<open>train\<close>. The forward and backward pass and the
  optimizer step are not modelled; what they do to the model shows in \<open>evaluate_at\<close>,
  the result of \<open>self.evaluate(cmodel)\<close> at the iteration it is called. Both cadence
  tests take a remainder and raise on a zero cadence; the log branch only prints.
\<close>

definition train_iteration ::
  "(nat \<Rightarrow> 'a list \<Rightarrow> 'a list) \<Rightarrow> (int \<Rightarrow> error + real \<times> real) \<Rightarrow> int \<Rightarrow>
     'a Trainer \<times> TrainState \<Rightarrow> error + 'a Trainer \<times> TrainState" where
  "train_iteration shuffle evaluate_at iteration ts =
     (case ts of (t, st) \<Rightarrow>
        (case get_lr (config t) iteration of
           Inl e \<Rightarrow> Inl e
         | Inr rate \<Rightarrow>
            (case fetch_batch shuffle t of
               (Inl e, t') \<Rightarrow> Inl e
             | (Inr b, t') \<Rightarrow>
                 if log_iters (config t') = 0 then Inl ZeroDivisionError
                 else if eval_iters (config t') = 0 then Inl ZeroDivisionError
                 else if iteration mod eval_iters (config t') = 0 \<and> iteration > 0 then
                   (case evaluate_at iteration of
                      Inl e \<Rightarrow> Inl e
                    | Inr (avg_loss, avg_accuracy) \<Rightarrow>
                        Inr (t', checkpoint_step st iteration avg_accuracy))
                 else Inr (t', st))))"

fun train_iterations ::
  "(nat \<Rightarrow> 'a list \<Rightarrow> 'a list) \<Rightarrow> (int \<Rightarrow> error + real \<times> real) \<Rightarrow> int list \<Rightarrow>
     'a Trainer \<times> TrainState \<Rightarrow> error + 'a Trainer \<times> TrainState" where
  "train_iterations shuffle evaluate_at [] ts = Inr ts"
| "train_iterations shuffle evaluate_at (iteration # rest) ts =
     (case train_iteration shuffle evaluate_at iteration ts of
        Inl e \<Rightarrow> Inl e
      | Inr ts' \<Rightarrow> train_iterations shuffle evaluate_at rest ts')"

text \<open>\<open>train\<close>: the loop over \<open>range(max_iters)\<close> from the initial threshold \<open>1e-9\<close>.\<close>

definition train ::
  "(nat \<Rightarrow> 'a list \<Rightarrow> 'a list) \<Rightarrow> (int \<Rightarrow> error + real \<times> real) \<Rightarrow> 'a Trainer \<Rightarrow>
     error + 'a Trainer \<times> TrainState" where
  "train shuffle evaluate_at t =
     train_iterations shuffle evaluate_at [0..max_iters (config t) - 1] (t, TrainState_init)"

section \<open>The multimodal model (tinymm/ALBEF/model.py)\<close>

text \<open>
  A two-dimensional tensor is the list of its rows, a three-dimensional one the list
  of its matrices; the rows of a tensor all have the same length. A loss is a float
  that may be NaN without an exception being raised: \<open>None\<close> is NaN, and NaN
  propagates through arithmetic.
\<close>

type_synonym loss = "real option"

definition loss_add :: "loss \<Rightarrow> loss \<Rightarrow> loss" where
  "loss_add a b = (case a of None \<Rightarrow> None | Some x \<Rightarrow> (case b of None \<Rightarrow> None | Some y \<Rightarrow> Some (x + y)))"

definition loss_div :: "loss \<Rightarrow> real \<Rightarrow> loss" where
  "loss_div a d = (case a of None \<Rightarrow> None | Some x \<Rightarrow> Some (x / d))"

subsection \<open>The tensor operations that \<open>forward\<close> calls\<close>

definition arange :: "nat \<Rightarrow> int list" where
  "arange n = map int [0..<n]"

definition dot :: "real list \<Rightarrow> real list \<Rightarrow> real" where
  "dot u v = sum_list (map2 (\<lambda>x y. x * y) u v)"

text \<open>\<open>F.normalize(x, dim=-1)\<close>: each row divided by the larger of its Euclidean norm and \<open>1e-12\<close>.\<close>

definition normalize :: "real list \<Rightarrow> real list" where
  "normalize v =
     map (\<lambda>x. x / max (sqrt (sum_list (map (\<lambda>y. y * y) v))) (1 / 10 ^ 12)) v"

definition scale :: "real \<Rightarrow> matrix \<Rightarrow> matrix" where
  "scale c A = map (map (\<lambda>x. c * x)) A"

text \<open>
  \<open>A @ B.T\<close>: entry \<open>(i, j)\<close> is the dot product of row \<open>i\<close> of \<open>A\<close> with row \<open>j\<close> of
  \<open>B\<close>; the product raises when the rows of \<open>A\<close> and of \<open>B\<close> differ in length.
\<close>

definition matmul_T :: "matrix \<Rightarrow> matrix \<Rightarrow> error + matrix" where
  "matmul_T A B =
     (if list_all (\<lambda>a. list_all (\<lambda>b. length a = length b) B) A
      then Inr (map (\<lambda>a. map (\<lambda>b. dot a b) B) A)
      else Inl RuntimeError)"

text \<open>\<open>A.T\<close>: row \<open>j\<close> of the transpose lists entry \<open>j\<close> of every row of \<open>A\<close>.\<close>

definition tensor_T :: "matrix \<Rightarrow> matrix" where
  "tensor_T A =
     (case A of
        [] \<Rightarrow> []
      | r # _ \<Rightarrow> map (\<lambda>j. map (\<lambda>row. row ! j) A) [0..<length r])"

text \<open>
  \<open>F.cross_entropy(input, target, ignore_index)\<close> of the PyTorch library, with its
  default mean reduction: the rows whose target is \<open>ignore_index\<close> are dropped; for
  each row left, the loss is minus the log-softmax of the row at its target class; the
  result is the mean over the rows left, NaN when none is left. It raises when the
  numbers of rows and of targets differ, and when a target that is not ignored is not
  a class of its row.
\<close>

definition log_softmax_at :: "real list \<Rightarrow> nat \<Rightarrow> real" where
  "log_softmax_at x c = x ! c - ln (sum_list (map exp x))"

definition cross_entropy :: "int \<Rightarrow> matrix \<Rightarrow> int list \<Rightarrow> error + loss" where
  "cross_entropy ignore_index input target =
     (if length input = length target then
        (let kept = filter (\<lambda>(x, y). y \<noteq> ignore_index) (zip input target) in
         if list_ex (\<lambda>(x, y). y < 0 \<or> int (length x) \<le> y) kept then Inl IndexError
         else if kept = [] then Inr None
         else Inr (Some (sum_list (map (\<lambda>(x, y). - log_softmax_at x (nat y)) kept)
                          / real (length kept))))
      else Inl ValueError)"

subsection \<open>\<open>ImageEncoder\<close> and \<open>TextEncoder\<close>\<close>

text \<open>
  The backbones (\<open>self.encoder\<close>: a timm model, a GPT), the linear projections and the
  token-prediction head \<open>self.encoder.lm_head\<close> of the GPT are learned modules defined
  outside this file: they are functions on tensors, fields of the encoder.
\<close>

record 'x ImageEncoder =
  img_backbone :: "'x \<Rightarrow> tensor3"
  img_proj :: "matrix \<Rightarrow> matrix"

record TextEncoder =
  txt_backbone :: "int list list \<Rightarrow> tensor3"
  txt_proj :: "matrix \<Rightarrow> matrix"
  lm_head :: "tensor3 \<Rightarrow> tensor3"

text \<open>\<open>out[:, -1, :]\<close>: the last position of every sequence; it raises on an empty sequence.\<close>

definition last_token :: "tensor3 \<Rightarrow> error + matrix" where
  "last_token out =
     (if list_ex (\<lambda>s. s = []) out then Inl IndexError else Inr (map last out))"

definition ImageEncoder_forward :: "'x ImageEncoder \<Rightarrow> 'x \<Rightarrow> error + matrix \<times> tensor3" where
  "ImageEncoder_forward enc inp =
     (let out = img_backbone enc inp in
      case last_token out of
        Inl e \<Rightarrow> Inl e
      | Inr tok \<Rightarrow> Inr (img_proj enc tok, out))"

definition TextEncoder_forward :: "TextEncoder \<Rightarrow> int list list \<Rightarrow> error + matrix \<times> tensor3" where
  "TextEncoder_forward enc inp =
     (let out = txt_backbone enc inp in
      case last_token out of
        Inl e \<Rightarrow> Inl e
      | Inr tok \<Rightarrow> Inr (txt_proj enc tok, out))"

subsection \<open>\<open>ALBEF.forward\<close>\<close>

record 'x ALBEF =
  img_encoder :: "'x ImageEncoder"
  txt_encoder :: TextEncoder
  logit_scale :: real
  multimodal_encoder :: "(tensor3 \<Rightarrow> tensor3) list"

text \<open>
  Lines 77 and 78: \<open>self.logit_scale.exp() * img_embds @ txt_embds.T\<close> multiplies the
  image embeddings by the scale first (\<open>*\<close> and \<open>@\<close> associate to the left), then
  takes the products with the text embeddings; \<open>logits_per_text\<close> is the transpose.
\<close>

definition itc_logits :: "real \<Rightarrow> matrix \<Rightarrow> matrix \<Rightarrow> error + matrix \<times> matrix" where
  "itc_logits ls img_embds txt_embds =
     (case matmul_T (scale (exp ls) img_embds) txt_embds of
        Inl e \<Rightarrow> Inl e
      | Inr logits_per_image \<Rightarrow> Inr (logits_per_image, tensor_T logits_per_image))"

text \<open>Lines 81 to 84; both calls use the default \<open>ignore_index = -100\<close>.\<close>

definition itc_loss :: "matrix \<Rightarrow> matrix \<Rightarrow> int list \<Rightarrow> error + loss" where
  "itc_loss logits_per_image logits_per_text labels =
     (case cross_entropy (- 100) logits_per_image labels of
        Inl e \<Rightarrow> Inl e
      | Inr a \<Rightarrow>
          (case cross_entropy (- 100) logits_per_text labels of
             Inl e \<Rightarrow> Inl e
           | Inr b \<Rightarrow> Inr (loss_div (loss_add a b) 2.0)))"

text \<open>\<open>torch.cat(..., dim=1)\<close>: the sequences are joined item by item; the batch sizes must agree.\<close>

definition cat_dim1 :: "tensor3 \<Rightarrow> tensor3 \<Rightarrow> error + tensor3" where
  "cat_dim1 a b =
     (if length a = length b then Inr (map2 (\<lambda>x y. x @ y) a b) else Inl RuntimeError)"

text \<open>
  \<open>out[:, -text_seq_len:, :]\<close>: the last \<open>text_seq_len\<close> positions of every sequence.
  A Python slice from \<open>-0\<close> is a slice from 0, the whole sequence, and a slice
  longer than the sequence is the whole sequence as well.
\<close>

definition slice_last :: "nat \<Rightarrow> tensor3 \<Rightarrow> tensor3" where
  "slice_last n out = map (\<lambda>s. if n = 0 then s else drop (length s - n) s) out"

text \<open>
  Lines 95 to 99: \<open>logits.view(-1, V)\<close> and \<open>targets.view(-1)\<close> list the positions of
  all sequences in order; the target \<open>-1\<close> is ignored.
\<close>

definition mlm_loss :: "tensor3 \<Rightarrow> int list list \<Rightarrow> error + loss" where
  "mlm_loss logits targets = cross_entropy (- 1) (concat logits) (concat targets)"

text \<open>
  \<open>forward\<close>, with the eight components of its result in the order of the source;
  the last one is \<open>itc_loss + mlm_loss\<close>. \<open>text_seq_len\<close> is the second dimension of
  \<open>texts\<close>.
\<close>

definition forward ::
  "'x ALBEF \<Rightarrow> 'x \<times> int list list \<times> int list list \<Rightarrow>
     error + matrix \<times> matrix \<times> int list \<times> tensor3 \<times> int list list \<times> loss \<times> loss \<times> loss" where
  "forward m inp =
     (case inp of (images, texts, targets) \<Rightarrow>
      let text_seq_len = (case texts of [] \<Rightarrow> 0 | r # _ \<Rightarrow> length r) in
      case ImageEncoder_forward (img_encoder m) images of
        Inl e \<Rightarrow> Inl e
      | Inr (img_embds, img_feature) \<Rightarrow>
      case TextEncoder_forward (txt_encoder m) texts of
        Inl e \<Rightarrow> Inl e
      | Inr (txt_embds, txt_feature) \<Rightarrow>
      case itc_logits (logit_scale m) (map normalize img_embds) (map normalize txt_embds) of
        Inl e \<Rightarrow> Inl e
      | Inr (logits_per_image, logits_per_text) \<Rightarrow>
      let labels = arange (length logits_per_image) in
      case itc_loss logits_per_image logits_per_text labels of
        Inl e \<Rightarrow> Inl e
      | Inr itc \<Rightarrow>
      case cat_dim1 img_feature txt_feature of
        Inl e \<Rightarrow> Inl e
      | Inr fused \<Rightarrow>
      let out = fold (\<lambda>block x. block x) (multimodal_encoder m) fused;
          logits = lm_head (txt_encoder m) (slice_last text_seq_len out)
      in
      case mlm_loss logits targets of
        Inl e \<Rightarrow> Inl e
      | Inr mlm \<Rightarrow>
          Inr (logits_per_image, logits_per_text, labels, logits, targets,
               itc, mlm, loss_add itc mlm))"

subsection \<open>The contrastive loss in the words of the specification\<close>

text \<open>
  The similarity matrix \<open>temperature_scale * I * T^t\<close>, and the cross-entropy with the
  identity labels \<open>0..N-1\<close>: row-wise, the softmax of row \<open>i\<close> over its \<open>N\<close> entries,
  read at the diagonal; column-wise, the same on the columns.
\<close>

definition similarity :: "real \<Rightarrow> matrix \<Rightarrow> matrix \<Rightarrow> matrix" where
  "similarity c I T = map (\<lambda>a. map (\<lambda>b. c * dot a b) T) I"

definition identity_ce_rows :: "matrix \<Rightarrow> real" where
  "identity_ce_rows S =
     (\<Sum>i<length S. - ln (exp (S ! i ! i) / (\<Sum>j<length S. exp (S ! i ! j))))
       / real (length S)"

definition identity_ce_cols :: "matrix \<Rightarrow> real" where
  "identity_ce_cols S =
     (\<Sum>j<length S. - ln (exp (S ! j ! j) / (\<Sum>i<length S. exp (S ! i ! j))))
       / real (length S)"

section \<open>Properties of the learning-rate schedule\<close>

lemma decay_ratio_bounds:
  assumes "warmup_iters cfg < lr_decay_iters cfg"
    and "warmup_iters cfg \<le> iteration"
    and "iteration \<le> lr_decay_iters cfg"
  shows "0 \<le> decay_ratio cfg iteration" and "decay_ratio cfg iteration \<le> 1"
proof -
  from assms have d: "0 < real_of_int (lr_decay_iters cfg - warmup_iters cfg)"
    by simp
  from assms have n: "0 \<le> real_of_int (iteration - warmup_iters cfg)"
    by simp
  from assms have le: "real_of_int (iteration - warmup_iters cfg)
      \<le> real_of_int (lr_decay_iters cfg - warmup_iters cfg)"
    by simp
  show "0 \<le> decay_ratio cfg iteration"
    unfolding decay_ratio_def using d n by simp
  show "decay_ratio cfg iteration \<le> 1"
    unfolding decay_ratio_def using d le by (simp add: divide_le_eq)
qed

lemma cosine_coeff_nonneg: "0 \<le> 0.5 * (1.0 + cos (x::real))"
proof -
  have "- 1 \<le> cos x" by (rule cos_ge_minus_one)
  then have "0 \<le> 1 + cos x" by linarith
  then show ?thesis by simp
qed

lemma get_lr_cosine:
  assumes "warmup_iters cfg < lr_decay_iters cfg"
    and "warmup_iters cfg \<le> iteration"
    and "iteration \<le> lr_decay_iters cfg"
  shows "get_lr cfg iteration =
     Inr (min_lr cfg + 0.5 * (1.0 + cos (pi * decay_ratio cfg iteration))
            * (lr cfg - min_lr cfg))"
  using assms decay_ratio_bounds [OF assms] by (simp add: get_lr_def)

text \<open>
  C4, as the code has it. The floor is reached after the decay horizon only once the
  warmup is over, since the warmup test comes first in \<open>get_lr\<close>; and the rate is
  bounded below by \<open>min_lr\<close> from the warmup horizon on, not during the ramp that
  starts at 0. For every iteration \<open>i\<close> with \<open>warmup_iters \<le> i\<close>: if
  \<open>i > lr_decay_iters\<close> the result is exactly \<open>min_lr\<close>, and whenever the two horizons
  differ or \<open>i\<close> is past the decay horizon, \<open>get_lr\<close> returns a rate that is at least
  \<open>min_lr\<close> (given \<open>min_lr \<le> lr\<close>).
\<close>

theorem get_lr_floor_after_warmup:
  assumes "min_lr cfg \<le> lr cfg"
    and "warmup_iters cfg \<le> i"
  shows "(lr_decay_iters cfg < i \<longrightarrow> get_lr cfg i = Inr (min_lr cfg)) \<and>
         (warmup_iters cfg < lr_decay_iters cfg \<or> lr_decay_iters cfg < i \<longrightarrow>
            (\<exists>r. get_lr cfg i = Inr r \<and> min_lr cfg \<le> r))"
proof (cases "lr_decay_iters cfg < i")
  case True
  with assms show ?thesis by (simp add: get_lr_def)
next
  case False
  show ?thesis
  proof (cases "warmup_iters cfg < lr_decay_iters cfg")
    case w: True
    from False have le: "i \<le> lr_decay_iters cfg" by simp
    have "0 \<le> 0.5 * (1.0 + cos (pi * decay_ratio cfg i)) * (lr cfg - min_lr cfg)"
      using cosine_coeff_nonneg [of "pi * decay_ratio cfg i"] assms(1)
      by (intro mult_nonneg_nonneg) simp_all
    then have "min_lr cfg \<le> min_lr cfg
        + 0.5 * (1.0 + cos (pi * decay_ratio cfg i)) * (lr cfg - min_lr cfg)"
      by linarith
    with get_lr_cosine [OF w assms(2) le] False show ?thesis by simp
  next
    case False
    with \<open>\<not> lr_decay_iters cfg < i\<close> show ?thesis by simp
  qed
qed

theorem get_lr_floor_after_warmup_witness:
  "min_lr TrainConfig_default \<le> lr TrainConfig_default \<and>
   warmup_iters TrainConfig_default \<le> 128001 \<and>
   lr_decay_iters TrainConfig_default < 128001 \<and>
   get_lr TrainConfig_default 128001 = Inr (min_lr TrainConfig_default) \<and>
   (\<exists>r. get_lr TrainConfig_default 128001 = Inr r \<and> min_lr TrainConfig_default \<le> r)"
proof -
  have h: "min_lr TrainConfig_default \<le> lr TrainConfig_default"
    "warmup_iters TrainConfig_default \<le> 128001"
    by (simp_all add: TrainConfig_default_def)
  have d: "lr_decay_iters TrainConfig_default < 128001"
    by (simp add: TrainConfig_default_def)
  from get_lr_floor_after_warmup [OF h] d h show ?thesis by blast
qed

text \<open>
  C4 as stated fails: with the default configuration (\<open>lr = 1e-4 \<ge> min_lr = 1e-6 \<ge> 0\<close>)
  the rate at iteration 0 is 0, below \<open>min_lr\<close>; and with a warmup horizon beyond the
  decay horizon an iteration past the decay horizon is still on the ramp.
\<close>

theorem get_lr_below_min_lr_counterexample:
  "min_lr TrainConfig_default \<le> lr TrainConfig_default \<and>
   0 \<le> min_lr TrainConfig_default \<and>
   get_lr TrainConfig_default 0 = Inr 0 \<and>
   \<not> min_lr TrainConfig_default \<le> 0 \<and>
   lr_decay_iters (TrainConfig_default\<lparr>warmup_iters := 10, lr_decay_iters := 2\<rparr>) < 5 \<and>
   get_lr (TrainConfig_default\<lparr>warmup_iters := 10, lr_decay_iters := 2\<rparr>) 5
     = Inr (1 / 20000) \<and>
   min_lr (TrainConfig_default\<lparr>warmup_iters := 10, lr_decay_iters := 2\<rparr>) \<noteq> 1 / 20000"
  by (simp add: get_lr_def TrainConfig_default_def)

text \<open>
  C5. With a positive warmup horizon the rate at iteration 0 is 0 and every iteration
  below the horizon gets \<open>lr * (iteration / warmup_iters)\<close>; with a positive base
  rate this ramp is strictly increasing.
\<close>

theorem get_lr_warmup_ramp:
  assumes "0 < lr cfg" and "0 < warmup_iters cfg"
  shows "get_lr cfg 0 = Inr 0 \<and>
         (\<forall>i. i < warmup_iters cfg \<longrightarrow>
            get_lr cfg i
              = Inr (lr cfg * (real_of_int i / real_of_int (warmup_iters cfg)))) \<and>
         (\<forall>i j. i < j \<and> j < warmup_iters cfg \<longrightarrow>
            (\<exists>a b. get_lr cfg i = Inr a \<and> get_lr cfg j = Inr b \<and> a < b))"
proof (intro conjI allI impI)
  show "get_lr cfg 0 = Inr 0"
    using assms(2) by (simp add: get_lr_def)
next
  fix i assume "i < warmup_iters cfg"
  with assms(2) show "get_lr cfg i
      = Inr (lr cfg * (real_of_int i / real_of_int (warmup_iters cfg)))"
    by (simp add: get_lr_def)
next
  fix i j assume ij: "i < j \<and> j < warmup_iters cfg"
  then have i: "get_lr cfg i
      = Inr (lr cfg * real_of_int i / real_of_int (warmup_iters cfg))"
    and j: "get_lr cfg j
      = Inr (lr cfg * real_of_int j / real_of_int (warmup_iters cfg))"
    using assms(2) by (simp_all add: get_lr_def)
  from ij assms(1) have "lr cfg * real_of_int i < lr cfg * real_of_int j"
    by simp
  with assms(2) have "lr cfg * real_of_int i / real_of_int (warmup_iters cfg)
      < lr cfg * real_of_int j / real_of_int (warmup_iters cfg)"
    by (simp add: divide_strict_right_mono)
  with i j show "\<exists>a b. get_lr cfg i = Inr a \<and> get_lr cfg j = Inr b \<and> a < b"
    by simp
qed

theorem get_lr_warmup_ramp_witness:
  "0 < lr TrainConfig_default \<and> 0 < warmup_iters TrainConfig_default \<and>
   (500::int) < 1000 \<and> 1000 < warmup_iters TrainConfig_default \<and>
   get_lr TrainConfig_default 0 = Inr 0 \<and>
   get_lr TrainConfig_default 500 = Inr (1 / 40000) \<and>
   get_lr TrainConfig_default 1000 = Inr (1 / 20000) \<and>
   (\<exists>a b. get_lr TrainConfig_default 500 = Inr a \<and>
      get_lr TrainConfig_default 1000 = Inr b \<and> a < b)"
proof -
  have h: "0 < lr TrainConfig_default" "0 < warmup_iters TrainConfig_default"
    by (simp_all add: TrainConfig_default_def)
  have c: "(500::int) < 1000 \<and> 1000 < warmup_iters TrainConfig_default"
    by (simp add: TrainConfig_default_def)
  from get_lr_warmup_ramp [OF h] c
  have "\<exists>a b. get_lr TrainConfig_default 500 = Inr a \<and>
      get_lr TrainConfig_default 1000 = Inr b \<and> a < b"
    by blast
  moreover have "get_lr TrainConfig_default 0 = Inr 0"
    using get_lr_warmup_ramp [OF h] by blast
  moreover have "get_lr TrainConfig_default 500 = Inr (1 / 40000)"
    "get_lr TrainConfig_default 1000 = Inr (1 / 20000)"
    by (simp_all add: get_lr_def TrainConfig_default_def)
  ultimately show ?thesis using h c by simp
qed

text \<open>
  C6. When the warmup horizon is below the decay horizon, every iteration from the
  warmup horizon to the decay horizon has a decay fraction in \<open>[0, 1]\<close>, so the
  assertion of the cosine branch does not fire and \<open>get_lr\<close> returns the cosine value.
\<close>

theorem get_lr_assertion_never_fires:
  assumes "warmup_iters cfg < lr_decay_iters cfg"
    and "warmup_iters cfg \<le> i"
    and "i \<le> lr_decay_iters cfg"
  shows "0 \<le> decay_ratio cfg i \<and> decay_ratio cfg i \<le> 1 \<and>
         decay_ratio cfg i
           = real_of_int (i - warmup_iters cfg)
             / real_of_int (lr_decay_iters cfg - warmup_iters cfg) \<and>
         get_lr cfg i \<noteq> Inl AssertionError \<and>
         get_lr cfg i =
           Inr (min_lr cfg + 0.5 * (1.0 + cos (pi * decay_ratio cfg i))
                  * (lr cfg - min_lr cfg))"
  using decay_ratio_bounds [OF assms] get_lr_cosine [OF assms]
  by (simp add: decay_ratio_def)

theorem get_lr_assertion_never_fires_witness:
  "warmup_iters TrainConfig_default < lr_decay_iters TrainConfig_default \<and>
   warmup_iters TrainConfig_default \<le> 2000 \<and>
   2000 \<le> lr_decay_iters TrainConfig_default \<and>
   decay_ratio TrainConfig_default 2000 = 0 \<and>
   get_lr TrainConfig_default 2000 = Inr (lr TrainConfig_default)"
  using get_lr_assertion_never_fires [of TrainConfig_default 2000]
  by (simp add: TrainConfig_default_def)

section \<open>Properties of the batch source\<close>

lemma batches_length_le: "b \<in> set (batches B xs) \<Longrightarrow> length b \<le> B"
proof (induction B xs rule: batches.induct)
  case (1 B xs)
  show ?case
  proof (cases "B = 0 \<or> xs = []")
    case True
    with "1.prems" show ?thesis by (simp add: batches.simps)
  next
    case False
    with "1.prems" have "b = take B xs \<or> b \<in> set (batches B (drop B xs))"
      by (simp add: batches.simps [of B xs])
    then show ?thesis
    proof
      assume "b = take B xs" then show ?thesis by simp
    next
      assume "b \<in> set (batches B (drop B xs))"
      with "1.IH" False show ?thesis by simp
    qed
  qed
qed

lemma batches_first_full:
  assumes "0 < B" and "B \<le> length xs"
  shows "batches B xs = take B xs # batches B (drop B xs)"
proof -
  from assms have "xs \<noteq> []" by auto
  with assms(1) show ?thesis by (simp add: batches.simps [of B xs])
qed

lemma next_fresh:
  assumes ok: "0 < batch_size (config t)" "batch_size (config t) \<le> int (length (train_ds t))"
    "\<forall>k. length (shuffle k (train_ds t)) = length (train_ds t)"
  shows "\<exists>b t'. next_batch (iter_train_loader shuffle t) = (Inr b, t') \<and>
           int (length b) = batch_size (config t) \<and>
           config t' = config t \<and> train_ds t' = train_ds t \<and>
           (\<forall>c \<in> set (batch_iter t'). length c \<le> nat (batch_size (config t)))"
proof -
  let ?B = "nat (batch_size (config t))"
  let ?xs = "shuffle (passes t) (train_ds t)"
  from ok have B: "0 < ?B" "?B \<le> length ?xs" by simp_all
  have eq: "batches ?B ?xs = take ?B ?xs # batches ?B (drop ?B ?xs)"
    by (rule batches_first_full [OF B])
  have len: "int (length (take ?B ?xs)) = batch_size (config t)"
    using B ok(1) by simp
  have rest: "\<forall>c \<in> set (batches ?B (drop ?B ?xs)). length c \<le> ?B"
    by (simp add: batches_length_le)
  show ?thesis
    using eq len rest by (simp add: next_batch_def iter_train_loader_def)
qed

lemma fetch_batch_full:
  assumes ok: "0 < batch_size (config t)" "batch_size (config t) \<le> int (length (train_ds t))"
    "\<forall>k. length (shuffle k (train_ds t)) = length (train_ds t)"
    and inv: "\<forall>c \<in> set (batch_iter t). length c \<le> nat (batch_size (config t))"
  shows "\<exists>b t'. fetch_batch shuffle t = (Inr b, t') \<and>
           int (length b) = batch_size (config t) \<and>
           config t' = config t \<and> train_ds t' = train_ds t \<and>
           (\<forall>c \<in> set (batch_iter t'). length c \<le> nat (batch_size (config t)))"
proof (cases "batch_iter t")
  case Nil
  then have "fetch_batch shuffle t = next_batch (iter_train_loader shuffle t)"
    by (simp add: fetch_batch_def next_batch_def)
  with next_fresh [of t shuffle, OF ok] show ?thesis by simp
next
  case (Cons b bs)
  let ?t1 = "t\<lparr>batch_iter := bs\<rparr>"
  have nb: "next_batch t = (Inr b, ?t1)" using Cons by (simp add: next_batch_def)
  show ?thesis
  proof (cases "int (length b) < batch_size (config t)")
    case True
    have ok1: "0 < batch_size (config ?t1)"
      "batch_size (config ?t1) \<le> int (length (train_ds ?t1))"
      "\<forall>k. length (shuffle k (train_ds ?t1)) = length (train_ds ?t1)"
      using ok by simp_all
    from next_fresh [of ?t1 shuffle, OF ok1] obtain b' t' where
      f: "next_batch (iter_train_loader shuffle ?t1) = (Inr b', t')"
      and p: "int (length b') = batch_size (config t)" "config t' = config t"
        "train_ds t' = train_ds t"
        "\<forall>c \<in> set (batch_iter t'). length c \<le> nat (batch_size (config t))"
      by auto
    have "fetch_batch shuffle t = (Inr b', t')"
      using nb True f by (simp add: fetch_batch_def)
    with p show ?thesis by simp
  next
    case False
    from inv Cons have "length b \<le> nat (batch_size (config t))" by simp
    with False ok(1) have len: "int (length b) = batch_size (config t)" by linarith
    have "fetch_batch shuffle t = (Inr b, ?t1)"
      using nb False by (simp add: fetch_batch_def)
    moreover from inv Cons have "\<forall>c \<in> set (batch_iter ?t1). length c \<le> nat (batch_size (config t))"
      by simp
    ultimately show ?thesis using len by simp
  qed
qed

lemma fetch_many_full:
  assumes ok: "0 < batch_size (config t)" "batch_size (config t) \<le> int (length (train_ds t))"
    "\<forall>k. length (shuffle k (train_ds t)) = length (train_ds t)"
    and inv: "\<forall>c \<in> set (batch_iter t). length c \<le> nat (batch_size (config t))"
  shows "length (fetch_many shuffle n t) = n \<and>
         list_all (\<lambda>r. \<exists>b. r = Inr b \<and> int (length b) = batch_size (config t))
           (fetch_many shuffle n t)"
  using assms
proof (induction n arbitrary: t)
  case 0
  show ?case by simp
next
  case (Suc n)
  from fetch_batch_full [of t shuffle, OF Suc.prems] obtain b t' where
    f: "fetch_batch shuffle t = (Inr b, t')"
    and p: "int (length b) = batch_size (config t)" "config t' = config t"
      "train_ds t' = train_ds t"
      "\<forall>c \<in> set (batch_iter t'). length c \<le> nat (batch_size (config t))"
    by auto
  have "length (fetch_many shuffle n t') = n \<and>
      list_all (\<lambda>r. \<exists>b. r = Inr b \<and> int (length b) = batch_size (config t'))
        (fetch_many shuffle n t')"
    using Suc.IH [of t'] Suc.prems p by simp
  with f p show ?case by simp
qed

text \<open>
  C3, as the code has it. When the dataset holds at least \<open>batch_size\<close> samples (and
  \<open>batch_size\<close> is positive, as the loader demands), every pass starts with a full
  batch, so each of any number \<open>n\<close> of successive fetches returns a batch, and that
  batch has exactly \<open>batch_size\<close> samples: a short last batch and the end of a pass
  both start a new pass. The shuffle may be any reordering that keeps the length.
\<close>

theorem fetch_many_full_batches:
  assumes "0 < batch_size cfg"
    and "batch_size cfg \<le> int (length ds)"
    and "\<forall>k. length (shuffle k ds) = length ds"
  shows "length (fetch_many shuffle n (Trainer_init shuffle cfg ds)) = n \<and>
         list_all (\<lambda>r. \<exists>b. r = Inr b \<and> int (length b) = batch_size cfg)
           (fetch_many shuffle n (Trainer_init shuffle cfg ds))"
proof -
  let ?t0 = "\<lparr> config = cfg, train_ds = ds, batch_iter = [], passes = 0 \<rparr>"
  let ?t = "Trainer_init shuffle cfg ds"
  have c: "config ?t = cfg" "train_ds ?t = ds"
    by (simp_all add: Trainer_init_def iter_train_loader_def)
  have inv: "\<forall>c \<in> set (batch_iter ?t). length c \<le> nat (batch_size (config ?t))"
    by (simp add: Trainer_init_def iter_train_loader_def batches_length_le)
  have "length (fetch_many shuffle n ?t) = n \<and>
      list_all (\<lambda>r. \<exists>b. r = Inr b \<and> int (length b) = batch_size (config ?t))
        (fetch_many shuffle n ?t)"
    using fetch_many_full [of ?t shuffle n] assms c inv by simp
  with c show ?thesis by simp
qed

theorem fetch_many_full_batches_witness:
  "0 < batch_size (TrainConfig_default\<lparr>batch_size := 2\<rparr>) \<and>
   batch_size (TrainConfig_default\<lparr>batch_size := 2\<rparr>) \<le> int (length [1, 2, 3 :: nat]) \<and>
   fetch_many rotate 4 (Trainer_init rotate (TrainConfig_default\<lparr>batch_size := 2\<rparr>) [1, 2, 3 :: nat])
     = [Inr [1, 2], Inr [2, 3], Inr [3, 1], Inr [1, 2]] \<and>
   length (fetch_many rotate 4
      (Trainer_init rotate (TrainConfig_default\<lparr>batch_size := 2\<rparr>) [1, 2, 3 :: nat])) = 4 \<and>
   list_all (\<lambda>r. \<exists>b. r = Inr b \<and> int (length b) = batch_size (TrainConfig_default\<lparr>batch_size := 2\<rparr>))
     (fetch_many rotate 4
        (Trainer_init rotate (TrainConfig_default\<lparr>batch_size := 2\<rparr>) [1, 2, 3 :: nat]))"
proof -
  let ?cfg = "TrainConfig_default\<lparr>batch_size := 2\<rparr>"
  have h: "0 < batch_size ?cfg" "batch_size ?cfg \<le> int (length [1, 2, 3 :: nat])"
    "\<forall>k. length (rotate k [1, 2, 3 :: nat]) = length [1, 2, 3 :: nat]"
    by simp_all
  have run: "fetch_many rotate 4 (Trainer_init rotate ?cfg [1, 2, 3 :: nat])
     = [Inr [1, 2], Inr [2, 3], Inr [3, 1], Inr [1, 2]]"
    by (simp add: Trainer_init_def iter_train_loader_def batches.simps fetch_batch_def
        next_batch_def numeral_nat rotate1_def eval_nat_numeral)
  from fetch_many_full_batches [of ?cfg "[1, 2, 3 :: nat]" rotate 4, OF h] h(1,2) run show ?thesis by simp
qed

text \<open>
  C3 as stated fails when the pass itself is shorter than a batch: the batch taken
  after the restart is not checked. With one sample and the default \<open>batch_size\<close> of
  128 the first fetch returns a batch of one sample.
\<close>

theorem fetch_batch_short_counterexample:
  "fst (fetch_batch (\<lambda>k xs. xs) (Trainer_init (\<lambda>k xs. xs) TrainConfig_default [7 :: nat]))
     = Inr [7] \<and>
   int (length [7 :: nat]) < batch_size TrainConfig_default"
  by (simp add: Trainer_init_def iter_train_loader_def batches.simps fetch_batch_def
        next_batch_def TrainConfig_default_def)

section \<open>Properties of the evaluation and of the checkpoints\<close>

lemma evaluate_totals:
  assumes "eval_batches model (take (length eval_loader - 1) eval_loader) (0, 0)
      = Inr (total_loss, sum_accuracy)"
    and "eval_loader \<noteq> []"
  shows "evaluate model eval_loader
      = Inr (total_loss / real (length eval_loader), sum_accuracy / real (length eval_loader))"
proof -
  have "nat (int (length eval_loader) - 1) = length eval_loader - 1" by simp
  with assms show ?thesis by (simp add: evaluate_def)
qed

text \<open>
  C2 does not hold of the code. With an evaluation loader of two batches, each with
  loss 1 and accuracy 1, the loop processes one batch and accumulates the totals
  \<open>(1, 1)\<close>, and \<open>evaluate\<close> returns \<open>(1/2, 1/2)\<close>: the totals divided by the number of
  batches of the loader, not by the one batch processed.
\<close>

theorem evaluate_divides_by_loader_length:
  "eval_batches (\<lambda>b::nat. ([[1, 0], [0, 1]], 1)) (take (length [0, 1 :: nat] - 1) [0, 1]) (0, 0)
     = Inr (1, 1) \<and>
   evaluate (\<lambda>b::nat. ([[1, 0], [0, 1]], 1)) [0, 1] = Inr (1 / 2, 1 / 2)"
  by (simp add: evaluate_def batch_accuracy_def)

lemma checkpoint_step_best:
  "best_val_accuracy (checkpoint_step st iteration avg_accuracy) = best_val_accuracy st"
  by (simp add: checkpoint_step_def)

lemma train_iteration_best:
  assumes "train_iteration shuffle evaluate_at iteration (t, st) = Inr (t', st')"
  shows "best_val_accuracy st' = best_val_accuracy st"
  using assms
  by (auto simp: train_iteration_def checkpoint_step_best
      split: sum.splits prod.splits if_splits)

lemma train_iterations_best:
  assumes "train_iterations shuffle evaluate_at its (t, st) = Inr (t', st')"
  shows "best_val_accuracy st' = best_val_accuracy st"
  using assms
proof (induction its arbitrary: t st)
  case Nil
  then show ?case by simp
next
  case (Cons iteration rest)
  then obtain t1 st1 where
    one: "train_iteration shuffle evaluate_at iteration (t, st) = Inr (t1, st1)"
    and more: "train_iterations shuffle evaluate_at rest (t1, st1) = Inr (t', st')"
    by (auto split: sum.splits)
  from Cons.IH [OF more] train_iteration_best [OF one] show ?case by simp
qed

text \<open>
  C1 does not hold of the code. A run of six iterations that evaluates at the
  iterations 1 to 5 with the accuracies 0.40, 0.40, 0.55, 0.50, 0.60 writes a
  checkpoint at each of the five evaluations, and \<open>best_val_accuracy\<close> is still
  \<open>1e-9\<close> at the end: the threshold is compared and never assigned.
\<close>

theorem train_saves_every_evaluation:
  "(case train (\<lambda>k xs. xs)
          (\<lambda>i. Inr (0, [0.40, 0.40, 0.55, 0.50, 0.60] ! nat (i - 1)))
          (Trainer_init (\<lambda>k xs. xs)
             (TrainConfig_default
                \<lparr>batch_size := 1, log_iters := 1, eval_iters := 1, max_iters := 6\<rparr>)
             [()])
    of Inl e \<Rightarrow> None
     | Inr (t, st) \<Rightarrow> Some (saved st, best_val_accuracy st))
   = Some ([(1, 0.40), (2, 0.40), (3, 0.55), (4, 0.50), (5, 0.60)], 1 / 1000000000)"
  by (simp add: train_def Trainer_init_def iter_train_loader_def batches.simps
      TrainConfig_default_def upto_rec_numeral upto.simps train_iteration_def get_lr_def
      fetch_batch_def next_batch_def TrainState_init_def checkpoint_step_def)

section \<open>Properties of the losses of the multimodal model\<close>

lemma dot_scale: "dot (map (\<lambda>x. c * x) a) b = c * dot a b"
proof (induction a arbitrary: b)
  case Nil
  show ?case by (simp add: dot_def)
next
  case (Cons x a)
  show ?case
  proof (cases b)
    case Nil
    then show ?thesis by (simp add: dot_def)
  next
    case (Cons y b')
    with Cons.IH [of b'] show ?thesis by (simp add: dot_def algebra_simps)
  qed
qed

lemma matmul_T_scale:
  assumes "list_all (\<lambda>r. length r = D) I" and "list_all (\<lambda>r. length r = D) T"
  shows "matmul_T (scale c I) T = Inr (similarity c I T)"
proof -
  have shape: "list_all (\<lambda>a. list_all (\<lambda>b. length a = length b) T) (scale c I)"
    using assms by (auto simp: list_all_iff scale_def)
  show ?thesis
    using shape by (simp add: matmul_T_def similarity_def scale_def dot_scale comp_def)
qed

lemma filter_zip_arange:
  "filter (\<lambda>(x, y). y \<noteq> - 100) (zip M (arange (length M))) = zip M (arange (length M))"
  by (rule filter_True) (auto simp: arange_def set_zip)

lemma sum_list_zip_arange:
  "sum_list (map f (zip M (arange (length M)))) = (\<Sum>i<length M. f (M ! i, int i))"
proof -
  have "sum_list (map f (zip M (arange (length M))))
      = (\<Sum>i = 0..<length (zip M (arange (length M))). f (zip M (arange (length M)) ! i))"
    by (simp add: sum_list_sum_nth)
  also have "\<dots> = (\<Sum>i = 0..<length M. f (M ! i, int i))"
    by (rule sum.cong) (simp_all add: arange_def)
  finally show ?thesis by (simp add: atLeast0LessThan)
qed

lemma sum_exp_pos:
  assumes "x \<noteq> []"
  shows "0 < sum_list (map exp (x :: real list))"
  using assms
proof (induction x)
  case Nil
  then show ?case by simp
next
  case (Cons a x)
  show ?case
  proof (cases "x = []")
    case True
    then show ?thesis by simp
  next
    case False
    with Cons.IH have "0 < sum_list (map exp x)" by simp
    moreover have "0 < exp a" by simp
    ultimately have "0 < exp a + sum_list (map exp x)" by (rule add_pos_pos [rotated])
    then show ?thesis by simp
  qed
qed

lemma neg_log_softmax:
  assumes "x \<noteq> []"
  shows "- log_softmax_at x c = - ln (exp (x ! c) / (\<Sum>j<length x. exp (x ! j)))"
proof -
  have s: "sum_list (map exp x) = (\<Sum>j<length x. exp (x ! j))"
    by (simp add: sum_list_sum_nth atLeast0LessThan)
  from sum_exp_pos [OF assms] have "0 < (\<Sum>j<length x. exp (x ! j))" by (simp add: s)
  then have "ln (exp (x ! c) / (\<Sum>j<length x. exp (x ! j)))
      = x ! c - ln (\<Sum>j<length x. exp (x ! j))"
    by (simp add: ln_div)
  then show ?thesis by (simp add: log_softmax_at_def s)
qed

lemma cross_entropy_identity:
  assumes "M \<noteq> []" and "list_all (\<lambda>r. length r = length M) M"
  shows "cross_entropy (- 100) M (arange (length M)) = Inr (Some (identity_ce_rows M))"
proof -
  let ?z = "zip M (arange (length M))"
  have len: "length M = length (arange (length M))" by (simp add: arange_def)
  have ne: "?z \<noteq> []" using assms(1) by (cases M) (simp_all add: arange_def upt_conv_Cons)
  have rows: "\<And>i. i < length M \<Longrightarrow> length (M ! i) = length M"
    using assms(2) by (simp add: list_all_length)
  have inr: "\<not> list_ex (\<lambda>(x, y). y < 0 \<or> int (length x) \<le> y) ?z"
    using assms(2) by (auto simp: list_ex_iff list_all_iff set_zip arange_def)
  have "sum_list (map (\<lambda>(x, y). - log_softmax_at x (nat y)) ?z)
      = (\<Sum>i<length M. - log_softmax_at (M ! i) i)"
    by (simp add: sum_list_zip_arange)
  also have "\<dots> = (\<Sum>i<length M. - ln (exp (M ! i ! i) / (\<Sum>j<length M. exp (M ! i ! j))))"
  proof (rule sum.cong)
    fix i assume "i \<in> {..<length M}"
    then have i: "i < length M" by simp
    with rows assms(1) have "M ! i \<noteq> []" by fastforce
    from neg_log_softmax [OF this, of i] rows [OF i]
    show "- log_softmax_at (M ! i) i = - ln (exp (M ! i ! i) / (\<Sum>j<length M. exp (M ! i ! j)))"
      by simp
  qed simp
  finally have total: "sum_list (map (\<lambda>(x, y). - log_softmax_at x (nat y)) ?z)
      = (\<Sum>i<length M. - ln (exp (M ! i ! i) / (\<Sum>j<length M. exp (M ! i ! j))))" .
  have lz: "length ?z = length M" by (simp add: arange_def)
  show ?thesis
    unfolding cross_entropy_def Let_def filter_zip_arange
    using len inr ne total lz by (simp add: identity_ce_rows_def)
qed

lemma tensor_T_square:
  assumes "M \<noteq> []" and "list_all (\<lambda>r. length r = length M) M"
  shows "tensor_T M = map (\<lambda>j. map (\<lambda>row. row ! j) M) [0..<length M]"
  using assms by (cases M) (simp_all add: tensor_T_def)

lemma identity_ce_rows_T:
  assumes "M \<noteq> []" and "list_all (\<lambda>r. length r = length M) M"
  shows "identity_ce_rows (tensor_T M) = identity_ce_cols M"
  by (simp add: tensor_T_square [OF assms] identity_ce_rows_def identity_ce_cols_def)

lemma similarity_shape:
  assumes "length T = length I"
  shows "length (similarity c I T) = length I"
    and "list_all (\<lambda>r. length r = length (similarity c I T)) (similarity c I T)"
  using assms by (simp_all add: similarity_def list_all_iff)

lemma tensor_T_shape:
  assumes "M \<noteq> []" and "list_all (\<lambda>r. length r = length M) M"
  shows "tensor_T M \<noteq> []"
    and "list_all (\<lambda>r. length r = length (tensor_T M)) (tensor_T M)"
  using assms by (simp_all add: tensor_T_square [OF assms] list_all_iff)

text \<open>
  C8. For a batch of \<open>N \<ge> 1\<close> image embeddings \<open>I\<close> and \<open>N\<close> text embeddings \<open>T\<close> of
  one width (\<open>forward\<close> passes the normalized ones), the logits the code computes are
  the similarity matrix \<open>exp(logit_scale) * I * T^t\<close> and its transpose, and the
  contrastive loss is the average of the row-wise and the column-wise cross-entropy
  of that matrix with the identity labels, each a softmax over \<open>N\<close> classes.
\<close>

theorem itc_loss_symmetric_cross_entropy:
  assumes "I \<noteq> []" and "length T = length I"
    and "list_all (\<lambda>r. length r = D) I" and "list_all (\<lambda>r. length r = D) T"
  shows "itc_logits ls I T
           = Inr (similarity (exp ls) I T, tensor_T (similarity (exp ls) I T)) \<and>
         itc_loss (similarity (exp ls) I T) (tensor_T (similarity (exp ls) I T))
             (arange (length (similarity (exp ls) I T)))
           = Inr (Some ((identity_ce_rows (similarity (exp ls) I T)
                          + identity_ce_cols (similarity (exp ls) I T)) / 2))"
proof -
  let ?S = "similarity (exp ls) I T"
  have n: "length ?S = length I" by (rule similarity_shape(1) [OF assms(2)])
  with assms(1) have ne: "?S \<noteq> []" by auto
  have sq: "list_all (\<lambda>r. length r = length ?S) ?S" by (rule similarity_shape(2) [OF assms(2)])
  have lT: "length (tensor_T ?S) = length ?S"
    by (simp add: tensor_T_square [OF ne sq])
  have rows: "cross_entropy (- 100) ?S (arange (length ?S)) = Inr (Some (identity_ce_rows ?S))"
    by (rule cross_entropy_identity [OF ne sq])
  have "cross_entropy (- 100) (tensor_T ?S) (arange (length (tensor_T ?S)))
      = Inr (Some (identity_ce_rows (tensor_T ?S)))"
    by (rule cross_entropy_identity [OF tensor_T_shape [OF ne sq]])
  then have cols: "cross_entropy (- 100) (tensor_T ?S) (arange (length ?S))
      = Inr (Some (identity_ce_cols ?S))"
    by (simp add: lT identity_ce_rows_T [OF ne sq])
  have logits: "itc_logits ls I T = Inr (?S, tensor_T ?S)"
    by (simp add: itc_logits_def matmul_T_scale [OF assms(3,4)])
  have "itc_loss ?S (tensor_T ?S) (arange (length ?S))
      = Inr (Some ((identity_ce_rows ?S + identity_ce_cols ?S) / 2))"
    by (simp add: itc_loss_def rows cols loss_add_def loss_div_def)
  with logits show ?thesis by simp
qed

theorem itc_loss_symmetric_cross_entropy_witness:
  "[[1, 0], [0, 1 :: real]] \<noteq> [] \<and>
   list_all (\<lambda>r. length r = 2) [[1, 0], [0, 1 :: real]] \<and>
   itc_logits 0 [[1, 0], [0, 1]] [[1, 0], [0, 1]]
     = Inr ([[1, 0], [0, 1]], [[1, 0], [0, 1]]) \<and>
   itc_loss [[1, 0], [0, 1]] [[1, 0], [0, 1]] (arange 2)
     = Inr (Some ((identity_ce_rows [[1, 0], [0, 1]] + identity_ce_cols [[1, 0], [0, 1]]) / 2))"
proof -
  have h: "[[1, 0], [0, 1 :: real]] \<noteq> []"
    "length [[1, 0], [0, 1 :: real]] = length [[1, 0], [0, 1 :: real]]"
    "list_all (\<lambda>r. length r = 2) [[1, 0], [0, 1 :: real]]"
    by simp_all
  have S: "similarity 1 [[1, 0], [0, 1]] [[1, 0], [0, 1]] = [[1, 0], [0, 1]]"
    by (simp add: similarity_def dot_def)
  have T: "tensor_T [[1, 0], [0, 1 :: real]] = [[1, 0], [0, 1]]"
    by (simp add: tensor_T_def upt_conv_Cons)
  from itc_loss_symmetric_cross_entropy [of "[[1, 0], [0, 1]]" "[[1, 0], [0, 1]]" 2 0,
      OF h(1) h(2) h(3) h(3)] h(1,3)
  show ?thesis by (simp add: S T numeral_2_eq_2)
qed

text \<open>
  C10. With a single image embedding and a single text embedding of the same width,
  whatever their values, the logits are a 1x1 matrix and the contrastive loss is
  exactly 0; no error is raised.
\<close>

theorem itc_loss_single_pair_zero:
  assumes "length u = length v"
  shows "itc_logits ls [u] [v] = Inr ([[exp ls * dot u v]], [[exp ls * dot u v]]) \<and>
         itc_loss [[exp ls * dot u v]] [[exp ls * dot u v]] (arange 1) = Inr (Some 0)"
proof -
  have "itc_logits ls [u] [v] = Inr ([[exp ls * dot u v]], [[exp ls * dot u v]])"
    using assms by (simp add: itc_logits_def matmul_T_def scale_def dot_scale tensor_T_def)
  moreover have "cross_entropy (- 100) [[exp ls * dot u v]] (arange 1) = Inr (Some 0)"
    by (simp add: cross_entropy_def arange_def log_softmax_at_def)
  ultimately show ?thesis
    by (simp add: itc_loss_def loss_add_def loss_div_def)
qed

theorem itc_loss_single_pair_zero_witness:
  "length [3, 4 :: real] = length [1, 2 :: real] \<and>
   itc_logits 0 [[3, 4]] [[1, 2]] = Inr ([[11]], [[11]]) \<and>
   itc_loss [[11]] [[11]] (arange 1) = Inr (Some 0)"
  using itc_loss_single_pair_zero [of "[3, 4]" "[1, 2]" 0]
  by (simp add: dot_def)

lemma kept_ignored:
  assumes "length X1 = length X2"
    and "\<forall>p<length y. y ! p \<noteq> ig \<longrightarrow> X1 ! p = X2 ! p"
    and "length X1 = length y"
  shows "filter (\<lambda>(x, t). t \<noteq> ig) (zip X1 y) = filter (\<lambda>(x, t). t \<noteq> ig) (zip X2 y)"
  using assms
proof (induction y arbitrary: X1 X2)
  case Nil
  then show ?case by simp
next
  case (Cons t y)
  from Cons.prems obtain x1 X1' x2 X2' where
    X: "X1 = x1 # X1'" "X2 = x2 # X2'"
    by (cases X1; cases X2) auto
  from Cons.prems(2) X have hd: "t \<noteq> ig \<longrightarrow> x1 = x2" by auto
  have tl: "\<forall>p<length y. y ! p \<noteq> ig \<longrightarrow> X1' ! p = X2' ! p"
  proof (intro allI impI)
    fix p assume "p < length y" "y ! p \<noteq> ig"
    with Cons.prems(2) [rule_format, of "Suc p"] X show "X1' ! p = X2' ! p" by simp
  qed
  from Cons.prems X have "length X1' = length X2'" "length X1' = length y" by simp_all
  from Cons.IH [OF this(1) tl this(2)] hd X show ?case by auto
qed

lemma cross_entropy_ignored:
  assumes "length X1 = length X2"
    and "\<forall>p<length y. y ! p \<noteq> ig \<longrightarrow> X1 ! p = X2 ! p"
  shows "cross_entropy ig X1 y = cross_entropy ig X2 y"
proof (cases "length X1 = length y")
  case True
  from kept_ignored [OF assms True] assms(1) True show ?thesis
    by (simp add: cross_entropy_def)
next
  case False
  with assms(1) show ?thesis by (simp add: cross_entropy_def)
qed

text \<open>
  C9. Two logits tensors with the same number of positions that agree at every
  position whose target is not \<open>-1\<close> have the same masked-token loss (the same error
  or NaN included): the logits at the ignored positions have no influence.
\<close>

theorem mlm_loss_ignores_sentinel_positions:
  assumes "length (concat logits1) = length (concat logits2)"
    and "\<forall>p<length (concat targets).
           concat targets ! p \<noteq> - 1 \<longrightarrow> concat logits1 ! p = concat logits2 ! p"
  shows "mlm_loss logits1 targets = mlm_loss logits2 targets"
  unfolding mlm_loss_def by (rule cross_entropy_ignored [OF assms])

theorem mlm_loss_ignores_sentinel_positions_witness:
  "mlm_loss [[[1, 2], [3, 4]]] [[0, - 1]] = mlm_loss [[[1, 2], [9, 9]]] [[0, - 1]] \<and>
   mlm_loss [[[1, 2], [3, 4]]] [[0, - 1]] = Inr (Some (ln (exp 1 + exp 2) - 1)) \<and>
   [[[1, 2], [3, 4 :: real]]] \<noteq> [[[1, 2], [9, 9]]]"
proof -
  have h1: "length (concat [[[1, 2], [3, 4 :: real]]]) = length (concat [[[1, 2], [9, 9 :: real]]])"
    by simp
  have h2: "\<forall>p<length (concat [[0, - 1 :: int]]).
      concat [[0, - 1 :: int]] ! p \<noteq> - 1 \<longrightarrow>
      concat [[[1, 2], [3, 4 :: real]]] ! p = concat [[[1, 2], [9, 9]]] ! p"
    by (auto simp: less_Suc_eq numeral_2_eq_2)
  have v: "mlm_loss [[[1, 2], [3, 4]]] [[0, - 1]] = Inr (Some (ln (exp 1 + exp 2) - 1))"
    by (simp add: mlm_loss_def cross_entropy_def log_softmax_at_def)
  from mlm_loss_ignores_sentinel_positions [OF h1 h2] v show ?thesis by simp
qed

text \<open>
  C7. Whenever \<open>forward\<close> returns, the last component of its result is the sixth
  plus the seventh, \<open>itc_loss + mlm_loss\<close> with no coefficient, where the sixth is the
  contrastive loss of the returned logits and labels and the seventh the masked-token
  loss of the returned vocabulary logits and targets.
\<close>

theorem forward_total_loss:
  assumes "forward m inp
     = Inr (logits_per_image, logits_per_text, labels, logits, targets, itc, mlm, total_loss)"
  shows "total_loss = loss_add itc mlm \<and>
         itc_loss logits_per_image logits_per_text labels = Inr itc \<and>
         mlm_loss logits targets = Inr mlm \<and>
         (\<forall>a b. itc = Some a \<and> mlm = Some b \<longrightarrow> total_loss = Some (a + b))"
  using assms
  by (auto simp: forward_def Let_def loss_add_def split: prod.splits sum.splits)

theorem forward_total_loss_witness:
  "forward
     \<lparr> img_encoder = \<lparr> img_backbone = (\<lambda>x. [[[1, 0]]]), img_proj = (\<lambda>t. t) \<rparr>,
       txt_encoder = \<lparr> txt_backbone = (\<lambda>x. [[[1, 0]]]), txt_proj = (\<lambda>t. t),
                       lm_head = (\<lambda>t. t) \<rparr>,
       logit_scale = 0,
       multimodal_encoder = [] \<rparr>
     ((), [[5]], [[0]])
   = Inr ([[1]], [[1]], [0], [[[1, 0]]], [[0]],
          Some 0, Some (ln (exp 1 + 1) - 1), Some (ln (exp 1 + 1) - 1)) \<and>
   Some (ln (exp 1 + 1) - 1) = loss_add (Some 0) (Some (ln (exp 1 + 1) - 1))"
proof -
  let ?m = "\<lparr> img_encoder = \<lparr> img_backbone = (\<lambda>x::unit. [[[1, 0]]]), img_proj = (\<lambda>t. t) \<rparr>,
       txt_encoder = \<lparr> txt_backbone = (\<lambda>x. [[[1, 0]]]), txt_proj = (\<lambda>t. t),
                       lm_head = (\<lambda>t. t) \<rparr>,
       logit_scale = 0,
       multimodal_encoder = [] \<rparr>"
  have run: "forward ?m ((), [[5]], [[0]])
      = Inr ([[1]], [[1]], [0], [[[1, 0]]], [[0]],
          Some 0, Some (ln (exp 1 + 1) - 1), Some (ln (exp 1 + 1) - 1))"
    by (simp add: forward_def ImageEncoder_forward_def TextEncoder_forward_def last_token_def
        normalize_def itc_logits_def matmul_T_def scale_def dot_def tensor_T_def arange_def
        itc_loss_def cross_entropy_def log_softmax_at_def loss_add_def loss_div_def
        cat_dim1_def slice_last_def mlm_loss_def)
  from forward_total_loss [OF run] run show ?thesis by simp
qed

end
